theory Spec2Isabelle
  imports Main "HOL-Library.Word"
begin

section \<open>The image generator page (src/App.tsx)\<close>

text \<open>
  The page is one React component with seven pieces of state, a subscription to the
  authentication provider and two asynchronous handlers, \<open>generateImage\<close> and
  \<open>downloadImage\<close>. This theory embeds the handlers as functions on the component's
  state that also return the calls they make on the outside world (notifications, the
  generation request, DOM operations), in the order the source makes them.

  An asynchronous handler runs to its first \<open>await\<close> without interruption, and its
  continuation runs without interruption once the awaited promise settles. So
  \<open>generateImage\<close> is two functions: the part before the \<open>await\<close> and the part after
  it; what the promise settles to and what the clock reads are inputs of the second part.
\<close>

subsection \<open>Strings\<close>

text \<open>
  A JavaScript string is a sequence of 16-bit code units: \<open>slice\<close>, \<open>trim\<close> and a
  regular expression without the \<open>u\<close> flag all work on code units.
\<close>

type_synonym jsstring = "16 word list"

definition js :: "string \<Rightarrow> jsstring" where
  "js s = map (\<lambda>c. of_nat (of_char c)) s"

text \<open>
  \<open>String.prototype.trim\<close> removes the white space and line terminator code units of
  ECMAScript from both ends.
\<close>

definition isWhiteSpace :: "16 word \<Rightarrow> bool" where
  "isWhiteSpace c =
     (c \<in> set [0x9, 0xA, 0xB, 0xC, 0xD, 0x20, 0xA0, 0x1680,
                0x2000, 0x2001, 0x2002, 0x2003, 0x2004, 0x2005, 0x2006, 0x2007, 0x2008,
                0x2009, 0x200A, 0x2028, 0x2029, 0x202F, 0x205F, 0x3000, 0xFEFF])"

definition trim :: "jsstring \<Rightarrow> jsstring" where
  "trim s = rev (dropWhile isWhiteSpace (rev (dropWhile isWhiteSpace s)))"

text \<open>
  \<open>Date.now()\<close> is an integer number of milliseconds (negative for a clock set before
  1970) whose magnitude is far below \<open>10^21\<close>, so \<open>toString()\<close> writes it in decimal,
  with a minus sign when it is negative.
\<close>

fun nat_digits :: "nat \<Rightarrow> jsstring" where
  "nat_digits n =
     (if n < 10 then [of_nat (48 + n)]
      else nat_digits (n div 10) @ [of_nat (48 + n mod 10)])"

declare nat_digits.simps [simp del]

definition number_toString :: "int \<Rightarrow> jsstring" where
  "number_toString i =
     (if i < 0 then 0x2D # nat_digits (nat (- i)) else nat_digits (nat i))"

subsection \<open>Data\<close>

record GeneratedImage =
  img_id :: jsstring
  img_url :: jsstring
  img_prompt :: jsstring
  img_timestamp :: int
  img_size :: jsstring
  img_quality :: jsstring

record user_info =
  email :: jsstring

text \<open>The state of \<open>App\<close>: one field for each \<open>useState\<close>.\<close>

record app_state =
  user :: "user_info option"
  loading :: bool
  prompt :: jsstring
  size' :: jsstring
  quality :: jsstring
  generating :: bool
  generatedImages :: "GeneratedImage list"

definition initial_state :: app_state where
  "initial_state =
     \<lparr>user = None, loading = True, prompt = [], size' = js ''1024x1024'',
      quality = js ''high'', generating = False, generatedImages = []\<rparr>"

text \<open>The argument of \<open>blink.ai.generateImage\<close>.\<close>

record request =
  req_prompt :: jsstring
  req_size :: jsstring
  req_quality :: jsstring
  req_n :: nat

text \<open>An element of the \<open>data\<close> array of the response.\<close>

record image_data =
  url :: jsstring

text \<open>
  What the awaited promise settles to: it rejects with some error (the handler never looks
  at it) or fulfils with the \<open>data\<close> array.
\<close>

datatype api_result = Rejected jsstring | Fulfilled "image_data list"

datatype js_error = ApiError jsstring | TypeError

text \<open>The state the provider passes to the callback of \<open>onAuthStateChanged\<close>.\<close>

record auth_state =
  as_user :: "user_info option"
  as_isLoading :: bool

text \<open>The calls a handler makes, recorded in the order it makes them.\<close>

datatype effect =
    ToastError jsstring
  | ToastSuccess jsstring
  | SetGenerating bool
  | GenerateImageCall request
  | PrependGeneratedImage GeneratedImage
  | Fetch jsstring
  | ReadBlob
  | CreateObjectURL
  | CreateAnchor
  | SetHref
  | SetDownload jsstring
  | AppendChild
  | ClickAnchor
  | RevokeObjectURL
  | RemoveChild
  | AuthLogout

definition msg_enter_prompt :: jsstring where
  "msg_enter_prompt = js ''Please enter a prompt to generate an image''"

definition msg_generated :: jsstring where
  "msg_generated = js ''Image generated successfully!''"

definition msg_generate_failed :: jsstring where
  "msg_generate_failed = js ''Failed to generate image. Please try again.''"

definition msg_downloaded :: jsstring where
  "msg_downloaded = js ''Image downloaded!''"

definition msg_download_failed :: jsstring where
  "msg_download_failed = js ''Failed to download image''"

subsection \<open>generateImage\<close>

text \<open>
  The handler is a closure over the \<open>prompt\<close>, \<open>size\<close> and \<open>quality\<close> of the render in
  which it was created; it reads these, not the state at the time the promise settles,
  after the \<open>await\<close> too.
\<close>

record closure =
  c_prompt :: jsstring
  c_size :: jsstring
  c_quality :: jsstring

text \<open>
  Up to the \<open>await\<close>: the check of the prompt (the empty string is the only falsy
  string), then \<open>setGenerating(true)\<close> and the request. The third component is the
  suspended continuation, if there is one.
\<close>

definition generateImage_begin :: "app_state \<Rightarrow> app_state \<times> effect list \<times> closure option" where
  "generateImage_begin s =
     (if trim (prompt s) = [] then (s, [ToastError msg_enter_prompt], None)
      else
        (s\<lparr>generating := True\<rparr>,
         [SetGenerating True,
          GenerateImageCall
            \<lparr>req_prompt = trim (prompt s), req_size = size' s, req_quality = quality s,
             req_n = 1\<rparr>],
         Some \<lparr>c_prompt = prompt s, c_size = size' s, c_quality = quality s\<rparr>))"

text \<open>
  \<open>data[0].url\<close>: on an empty array \<open>data[0]\<close> is \<open>undefined\<close>, and reading a property
  of \<open>undefined\<close> throws a TypeError.
\<close>

definition first_url :: "image_data list \<Rightarrow> js_error + jsstring" where
  "first_url d = (case d of [] \<Rightarrow> Inl TypeError | x # _ \<Rightarrow> Inr (url x))"

text \<open>
  The rest of the \<open>try\<close> block up to the construction of \<open>newImage\<close>. The clock is read
  twice, once for the identifier and once for the timestamp.
\<close>

definition newImage :: "closure \<Rightarrow> api_result \<Rightarrow> int \<Rightarrow> int \<Rightarrow> js_error + GeneratedImage" where
  "newImage c r now1 now2 =
     (case r of
        Rejected e \<Rightarrow> Inl (ApiError e)
      | Fulfilled d \<Rightarrow>
          (case first_url d of
             Inl e \<Rightarrow> Inl e
           | Inr u \<Rightarrow>
               Inr \<lparr>img_id = number_toString now1, img_url = u, img_prompt = trim (c_prompt c),
                    img_timestamp = now2, img_size = c_size c, img_quality = c_quality c\<rparr>))"

text \<open>
  After the \<open>await\<close>, on the state \<open>s\<close> of the moment the promise settles:
  \<open>setGeneratedImages\<close> is given a function of the previous value, so the new record goes
  in front of the sequence as it is then. \<open>catch\<close> takes every error; \<open>finally\<close> runs
  last on both paths.
\<close>

definition generateImage_resume ::
    "closure \<Rightarrow> api_result \<Rightarrow> int \<Rightarrow> int \<Rightarrow> app_state \<Rightarrow> app_state \<times> effect list" where
  "generateImage_resume c r now1 now2 s =
     (case newImage c r now1 now2 of
        Inr img \<Rightarrow>
          (s\<lparr>generatedImages := img # generatedImages s, generating := False\<rparr>,
           [PrependGeneratedImage img, ToastSuccess msg_generated, SetGenerating False])
      | Inl e \<Rightarrow>
          (s\<lparr>generating := False\<rparr>,
           [ToastError msg_generate_failed, SetGenerating False]))"

text \<open>One whole call, with nothing else happening while the request is in flight.\<close>

definition generateImage ::
    "app_state \<Rightarrow> api_result \<Rightarrow> int \<Rightarrow> int \<Rightarrow> app_state \<times> effect list" where
  "generateImage s r now1 now2 =
     (case generateImage_begin s of
        (s1, tr1, None) \<Rightarrow> (s1, tr1)
      | (s1, tr1, Some c) \<Rightarrow>
          (case generateImage_resume c r now1 now2 s1 of
             (s2, tr2) \<Rightarrow> (s2, tr1 @ tr2)))"

fun isGenerateImageCall :: "effect \<Rightarrow> bool" where
  "isGenerateImageCall (GenerateImageCall _) = True"
| "isGenerateImageCall _ = False"

fun isPrependGeneratedImage :: "effect \<Rightarrow> bool" where
  "isPrependGeneratedImage (PrependGeneratedImage _) = True"
| "isPrependGeneratedImage _ = False"

subsection \<open>downloadImage\<close>

text \<open>The character class \<open>[a-zA-Z0-9]\<close>, on code units.\<close>

definition isAlnum :: "16 word \<Rightarrow> bool" where
  "isAlnum c =
     ((0x61 \<le> c \<and> c \<le> 0x7A) \<or> (0x41 \<le> c \<and> c \<le> 0x5A) \<or> (0x30 \<le> c \<and> c \<le> 0x39))"

text \<open>\<open>.replace(/[^a-zA-Z0-9]/g, '-')\<close>\<close>

definition replaceNonAlnum :: "jsstring \<Rightarrow> jsstring" where
  "replaceNonAlnum s = map (\<lambda>c. if isAlnum c then c else 0x2D) s"

text \<open>The template literal assigned to \<open>a.download\<close>; \<open>slice(0, 30)\<close> is \<open>take 30\<close>.\<close>

definition download_filename :: "jsstring \<Rightarrow> jsstring" where
  "download_filename p = js ''ai-generated-'' @ replaceNonAlnum (take 30 p) @ js ''.png''"

text \<open>The statements of the \<open>try\<close> block, in order.\<close>

definition download_body :: "jsstring \<Rightarrow> jsstring \<Rightarrow> effect list" where
  "download_body imageUrl p =
     [Fetch imageUrl, ReadBlob, CreateObjectURL, CreateAnchor, SetHref,
      SetDownload (download_filename p), AppendChild, ClickAnchor, RevokeObjectURL,
      RemoveChild, ToastSuccess msg_downloaded]"

text \<open>
  \<open>throwsAt\<close> is the environment's choice of the statement that throws, if any: the
  statements before it have run, the rest are skipped, and \<open>catch\<close> shows the
  notification. The handler changes no state of the component.
\<close>

definition downloadImage :: "nat option \<Rightarrow> jsstring \<Rightarrow> jsstring \<Rightarrow> effect list" where
  "downloadImage throwsAt imageUrl p =
     (case throwsAt of
        None \<Rightarrow> download_body imageUrl p
      | Some k \<Rightarrow>
          (if k < length (download_body imageUrl p)
           then take k (download_body imageUrl p) @ [ToastError msg_download_failed]
           else download_body imageUrl p))"

subsection \<open>The session observer\<close>

text \<open>The callback passed to \<open>blink.auth.onAuthStateChanged\<close>.\<close>

definition authCallback :: "auth_state \<Rightarrow> app_state \<Rightarrow> app_state" where
  "authCallback st s = s\<lparr>user := as_user st, loading := as_isLoading st\<rparr>"

text \<open>
  Modelled from the spec: the authentication provider is the external SDK behind
  \<open>./blink/client\<close>, which is not part of the source. The spec gives its interface as
  "subscribe(callback) \<rightarrow> unsubscribe function; callback receives \<open>{user, isLoading}\<close>".
  The provider is the list of its registered observers, each under a handle; the
  unsubscribe function of a subscription removes its handle.
\<close>

record auth_provider =
  observers :: "nat list"
  next_handle :: nat

text \<open>
  Modelled from the spec: \<open>onAuthStateChanged\<close> of the external provider, "register for
  session-state notifications"; it returns the handle that its unsubscribe function
  closes over.
\<close>

definition onAuthStateChanged :: "auth_provider \<Rightarrow> nat \<times> auth_provider" where
  "onAuthStateChanged p =
     (next_handle p,
      p\<lparr>observers := observers p @ [next_handle p], next_handle := Suc (next_handle p)\<rparr>)"

text \<open>
  Modelled from the spec: the unsubscribe function that the external provider returns
  from a subscription, "unregister the subscription".
\<close>

definition unsubscribe :: "nat \<Rightarrow> auth_provider \<Rightarrow> auth_provider" where
  "unsubscribe h p = p\<lparr>observers := filter (\<lambda>k. k \<noteq> h) (observers p)\<rparr>"

text \<open>
  A mounted \<open>App\<close>: its state and the cleanup function that the effect returned, which
  is the provider's unsubscribe function for the handle held here. The dependency list
  of the effect is empty, so it runs on mount only and its cleanup on unmount only.
\<close>

record component =
  state :: app_state
  cleanup :: nat

definition mount :: "auth_provider \<Rightarrow> component \<times> auth_provider" where
  "mount p =
     (case onAuthStateChanged p of
        (h, p') \<Rightarrow> (\<lparr>state = initial_state, cleanup = h\<rparr>, p'))"

definition unmount :: "component \<Rightarrow> auth_provider \<Rightarrow> auth_provider" where
  "unmount c p = unsubscribe (cleanup c) p"

text \<open>The provider announces a session state: the callback runs if it is registered.\<close>

definition notify :: "auth_provider \<Rightarrow> auth_state \<Rightarrow> component \<Rightarrow> component" where
  "notify p st c =
     (if cleanup c \<in> set (observers p) then c\<lparr>state := authCallback st (state c)\<rparr> else c)"

text \<open>A mounted component through a series of announcements by the provider.\<close>

fun notifications :: "auth_provider \<Rightarrow> auth_state list \<Rightarrow> component \<Rightarrow> component" where
  "notifications p [] c = c"
| "notifications p (st # sts) c = notifications p sts (notify p st c)"

subsection \<open>The page as an event system\<close>

text \<open>
  Everything that can run on the page: the two buttons of the form and the gallery, the
  settling of a pending generation request, the three inputs, the provider's
  notification and the sign-out button. The controls that the markup disables while
  \<open>generating\<close> is set are not disabled here: every event may come at any time, so what
  holds here holds for the page.
\<close>

datatype event =
    GenerateClick
  | GenerateSettled nat api_result int int
  | PromptChange jsstring
  | SizeChange jsstring
  | QualityChange jsstring
  | AuthStateChanged auth_state
  | DownloadClick nat "nat option"
  | LogoutClick

text \<open>
  The component's state, the suspended continuations of \<open>generateImage\<close> (one for each
  request in flight) and everything the handlers have done so far.
\<close>

record system =
  app :: app_state
  inflight :: "closure list"
  trace :: "effect list"

definition initial_system :: system where
  "initial_system = \<lparr>app = initial_state, inflight = [], trace = []\<rparr>"

fun step :: "system \<Rightarrow> event \<Rightarrow> system" where
  "step \<sigma> GenerateClick =
     (case generateImage_begin (app \<sigma>) of
        (s', tr, k) \<Rightarrow>
          \<sigma>\<lparr>app := s',
            inflight := inflight \<sigma> @ (case k of None \<Rightarrow> [] | Some c \<Rightarrow> [c]),
            trace := trace \<sigma> @ tr\<rparr>)"
| "step \<sigma> (GenerateSettled i r now1 now2) =
     (if i < length (inflight \<sigma>) then
        (case generateImage_resume (inflight \<sigma> ! i) r now1 now2 (app \<sigma>) of
           (s', tr) \<Rightarrow>
             \<sigma>\<lparr>app := s',
               inflight := take i (inflight \<sigma>) @ drop (Suc i) (inflight \<sigma>),
               trace := trace \<sigma> @ tr\<rparr>)
      else \<sigma>)"
| "step \<sigma> (PromptChange v) = \<sigma>\<lparr>app := (app \<sigma>)\<lparr>prompt := v\<rparr>\<rparr>"
| "step \<sigma> (SizeChange v) = \<sigma>\<lparr>app := (app \<sigma>)\<lparr>size' := v\<rparr>\<rparr>"
| "step \<sigma> (QualityChange v) = \<sigma>\<lparr>app := (app \<sigma>)\<lparr>quality := v\<rparr>\<rparr>"
| "step \<sigma> (AuthStateChanged st) = \<sigma>\<lparr>app := authCallback st (app \<sigma>)\<rparr>"
| "step \<sigma> (DownloadClick i k) =
     (if i < length (generatedImages (app \<sigma>)) then
        \<sigma>\<lparr>trace := trace \<sigma> @
               downloadImage k (img_url (generatedImages (app \<sigma>) ! i))
                 (img_prompt (generatedImages (app \<sigma>) ! i))\<rparr>
      else \<sigma>)"
| "step \<sigma> LogoutClick = \<sigma>\<lparr>trace := trace \<sigma> @ [AuthLogout]\<rparr>"

fun run :: "system \<Rightarrow> event list \<Rightarrow> system" where
  "run \<sigma> [] = \<sigma>"
| "run \<sigma> (e # es) = run (step \<sigma> e) es"

text \<open>
  The generation calls that succeed in a run: a request in flight settles with a
  response that has a first element.
\<close>

fun succeeds :: "system \<Rightarrow> event \<Rightarrow> bool" where
  "succeeds \<sigma> (GenerateSettled i (Fulfilled (d # ds)) now1 now2) = (i < length (inflight \<sigma>))"
| "succeeds \<sigma> _ = False"

fun successes :: "system \<Rightarrow> event list \<Rightarrow> nat" where
  "successes \<sigma> [] = 0"
| "successes \<sigma> (e # es) = (if succeeds \<sigma> e then 1 else 0) + successes (step \<sigma> e) es"

section \<open>Properties\<close>

subsection \<open>Auxiliary facts\<close>

lemma nat_digits_nonempty: "nat_digits n \<noteq> []"
  by (subst nat_digits.simps) simp

lemma number_toString_nonempty: "number_toString i \<noteq> []"
  by (simp add: number_toString_def nat_digits_nonempty)

lemma generateImage_begin_nonempty:
  "trim (prompt s) \<noteq> [] \<Longrightarrow>
   generateImage_begin s =
     (s\<lparr>generating := True\<rparr>,
      [SetGenerating True,
       GenerateImageCall
         \<lparr>req_prompt = trim (prompt s), req_size = size' s, req_quality = quality s, req_n = 1\<rparr>],
      Some \<lparr>c_prompt = prompt s, c_size = size' s, c_quality = quality s\<rparr>)"
  by (simp add: generateImage_begin_def)

lemma generateImage_begin_empty:
  "trim (prompt s) = [] \<Longrightarrow> generateImage_begin s = (s, [ToastError msg_enter_prompt], None)"
  by (simp add: generateImage_begin_def)

lemma newImage_Fulfilled_Cons:
  "newImage c (Fulfilled (d # ds)) now1 now2 =
     Inr \<lparr>img_id = number_toString now1, img_url = url d, img_prompt = trim (c_prompt c),
          img_timestamp = now2, img_size = c_size c, img_quality = c_quality c\<rparr>"
  by (simp add: newImage_def first_url_def)

lemma newImage_Fulfilled_Nil: "newImage c (Fulfilled []) now1 now2 = Inl TypeError"
  by (simp add: newImage_def first_url_def)

lemma newImage_Rejected: "newImage c (Rejected e) now1 now2 = Inl (ApiError e)"
  by (simp add: newImage_def)

lemma resume_success:
  "newImage c r now1 now2 = Inr img \<Longrightarrow>
   generateImage_resume c r now1 now2 s =
     (s\<lparr>generatedImages := img # generatedImages s, generating := False\<rparr>,
      [PrependGeneratedImage img, ToastSuccess msg_generated, SetGenerating False])"
  by (simp add: generateImage_resume_def)

lemma resume_failure:
  "newImage c r now1 now2 = Inl e \<Longrightarrow>
   generateImage_resume c r now1 now2 s =
     (s\<lparr>generating := False\<rparr>, [ToastError msg_generate_failed, SetGenerating False])"
  by (simp add: generateImage_resume_def)

lemma generateImage_nonempty:
  "trim (prompt s) \<noteq> [] \<Longrightarrow>
   generateImage s r now1 now2 =
     (fst (generateImage_resume \<lparr>c_prompt = prompt s, c_size = size' s, c_quality = quality s\<rparr>
             r now1 now2 (s\<lparr>generating := True\<rparr>)),
      [SetGenerating True,
       GenerateImageCall
         \<lparr>req_prompt = trim (prompt s), req_size = size' s, req_quality = quality s, req_n = 1\<rparr>]
      @ snd (generateImage_resume \<lparr>c_prompt = prompt s, c_size = size' s, c_quality = quality s\<rparr>
             r now1 now2 (s\<lparr>generating := True\<rparr>)))"
  by (simp add: generateImage_def generateImage_begin_nonempty split: prod.split)

lemma generateImage_empty:
  "trim (prompt s) = [] \<Longrightarrow> generateImage s r now1 now2 = (s, [ToastError msg_enter_prompt])"
  by (simp add: generateImage_def generateImage_begin_empty)

lemma resume_fst:
  "fst (generateImage_resume c r now1 now2 s) =
     s\<lparr>generatedImages := (case newImage c r now1 now2 of Inl e \<Rightarrow> [] | Inr img \<Rightarrow> [img])
                           @ generatedImages s,
       generating := False\<rparr>"
  by (simp add: generateImage_resume_def split: sum.split)

lemma resume_generating: "generating (fst (generateImage_resume c r now1 now2 s)) = False"
  by (simp add: resume_fst)

lemma resume_last: "last (snd (generateImage_resume c r now1 now2 s)) = SetGenerating False"
  by (simp add: generateImage_resume_def split: sum.split)

lemma resume_no_call:
  "filter isGenerateImageCall (snd (generateImage_resume c r now1 now2 s)) = []"
  by (simp add: generateImage_resume_def split: sum.split)

lemma dropWhile_all_iff: "(\<forall>x\<in>set (dropWhile P xs). P x) \<longleftrightarrow> (\<forall>x\<in>set xs. P x)"
  by (induction xs) auto

lemma trim_empty_iff: "trim p = [] \<longleftrightarrow> (\<forall>c\<in>set p. isWhiteSpace c)"
  by (simp add: trim_def dropWhile_all_iff)

lemma begin_generating_inflight:
  "generateImage_begin s = (s', tr, k) \<Longrightarrow>
   (k = None \<and> s' = s) \<or> (\<exists>c. k = Some c \<and> generating s')"
  by (auto simp: generateImage_begin_def split: if_splits)

lemma step_generating_inflight:
  assumes "generating (app \<sigma>) \<longrightarrow> inflight \<sigma> \<noteq> []"
  shows "generating (app (step \<sigma> e)) \<longrightarrow> inflight (step \<sigma> e) \<noteq> []"
proof (cases e)
  case GenerateClick
  obtain s' tr k where b: "generateImage_begin (app \<sigma>) = (s', tr, k)"
    by (cases "generateImage_begin (app \<sigma>)") auto
  from begin_generating_inflight [OF b] assms GenerateClick b show ?thesis
    by auto
next
  case (GenerateSettled i r now1 now2)
  have "generating (fst (generateImage_resume (inflight \<sigma> ! i) r now1 now2 (app \<sigma>))) = False"
    by (rule resume_generating)
  with assms GenerateSettled show ?thesis
    by (auto split: prod.splits)
next
  case (DownloadClick i k)
  with assms show ?thesis by simp
qed (use assms in \<open>simp_all add: authCallback_def\<close>)

lemma run_generating_inflight:
  "generating (app \<sigma>) \<longrightarrow> inflight \<sigma> \<noteq> [] \<Longrightarrow>
   generating (app (run \<sigma> es)) \<longrightarrow> inflight (run \<sigma> es) \<noteq> []"
proof (induction es arbitrary: \<sigma>)
  case Nil
  then show ?case by simp
next
  case (Cons e es)
  from Cons.prems have "generating (app (step \<sigma> e)) \<longrightarrow> inflight (step \<sigma> e) \<noteq> []"
    by (rule step_generating_inflight)
  then show ?case
    using Cons.IH by simp
qed

lemma begin_images: "generatedImages (fst (generateImage_begin s)) = generatedImages s"
  by (simp add: generateImage_begin_def)

lemma step_images:
  "\<exists>new. generatedImages (app (step \<sigma> e)) = new @ generatedImages (app \<sigma>)
         \<and> length new = (if succeeds \<sigma> e then 1 else 0)"
proof (cases e)
  case GenerateClick
  then show ?thesis
    using begin_images [of "app \<sigma>"] by (auto split: prod.splits)
next
  case (GenerateSettled i r now1 now2)
  show ?thesis
  proof (cases r)
    case (Rejected x)
    with GenerateSettled show ?thesis
      by (simp add: resume_failure [OF newImage_Rejected])
  next
    case (Fulfilled d)
    show ?thesis
    proof (cases d)
      case Nil
      with GenerateSettled Fulfilled show ?thesis
        by (simp add: resume_failure [OF newImage_Fulfilled_Nil])
    next
      case (Cons x xs)
      with GenerateSettled Fulfilled show ?thesis
        by (simp add: resume_success [OF newImage_Fulfilled_Cons])
    qed
  qed
qed (simp_all add: authCallback_def)

lemma run_images:
  "\<exists>new. generatedImages (app (run \<sigma> es)) = new @ generatedImages (app \<sigma>)
         \<and> length new = successes \<sigma> es"
proof (induction es arbitrary: \<sigma>)
  case Nil
  then show ?case by simp
next
  case (Cons e es)
  obtain new1 where 1: "generatedImages (app (step \<sigma> e)) = new1 @ generatedImages (app \<sigma>)"
      "length new1 = (if succeeds \<sigma> e then 1 else 0)"
    using step_images by blast
  obtain new2 where 2: "generatedImages (app (run (step \<sigma> e) es)) = new2 @ generatedImages (app (step \<sigma> e))"
      "length new2 = successes (step \<sigma> e) es"
    using Cons.IH by blast
  from 1 2 have "generatedImages (app (run \<sigma> (e # es))) = (new2 @ new1) @ generatedImages (app \<sigma>)
      \<and> length (new2 @ new1) = successes \<sigma> (e # es)"
    by simp
  then show ?case by blast
qed


lemma download_body_length: "length (download_body u p) = 11"
  by (simp add: download_body_def)

lemma replaceNonAlnum_nth:
  "i < min 30 (length p) \<Longrightarrow>
   replaceNonAlnum (take 30 p) ! i = (if isAlnum (p ! i) then p ! i else 0x2D)"
  by (simp add: replaceNonAlnum_def)

lemma downloadImage_throws:
  "k < 11 \<Longrightarrow>
   downloadImage (Some k) u p = take k (download_body u p) @ [ToastError msg_download_failed]"
  by (simp add: downloadImage_def download_body_length)

lemma success_toast_not_in_take:
  "k < 11 \<Longrightarrow> ToastSuccess m \<notin> set (take k (download_body u p))"
proof -
  assume "k < 11"
  then have "take k (download_body u p) = take k (butlast (download_body u p))"
    by (simp add: take_butlast download_body_length)
  moreover have "ToastSuccess m \<notin> set (butlast (download_body u p))"
    by (simp add: download_body_def)
  ultimately show ?thesis
    by (metis in_set_takeD)
qed

lemma filter_absent: "h \<notin> set xs \<Longrightarrow> filter (\<lambda>k. k \<noteq> h) xs = xs"
  by (induction xs) auto

lemma mount_eq:
  "mount p =
     (\<lparr>state = initial_state, cleanup = next_handle p\<rparr>,
      p\<lparr>observers := observers p @ [next_handle p], next_handle := Suc (next_handle p)\<rparr>)"
  by (simp add: mount_def onAuthStateChanged_def)

lemma notify_cleanup: "cleanup (notify q st c) = cleanup c"
  by (simp add: notify_def)

lemma notifications_cleanup: "cleanup (notifications q sts c) = cleanup c"
  by (induction sts arbitrary: c) (simp_all add: notify_cleanup)

lemma unmount_observers:
  "observers (unmount c q) = filter (\<lambda>k. k \<noteq> cleanup c) (observers q)"
  by (simp add: unmount_def unsubscribe_def)

subsection \<open>The generation request\<close>

text \<open>
  C1. When the prompt is not empty after trimming and the request fulfils with at least
  one result, \<open>generateImage\<close> puts exactly one new record in front of the result
  sequence, whose length grows by one. The record has the decimal text of the clock
  reading as its identifier (never empty), the URL of the first result, the trimmed
  prompt, the clock reading as timestamp, and the selected size and quality. The success
  notification is shown.
\<close>

theorem generateImage_success_prepends:
  assumes "trim (prompt s) \<noteq> []"
  shows "generatedImages (fst (generateImage s (Fulfilled (d # ds)) now1 now2)) =
           \<lparr>img_id = number_toString now1, img_url = url d, img_prompt = trim (prompt s),
            img_timestamp = now2, img_size = size' s, img_quality = quality s\<rparr>
           # generatedImages s
         \<and> length (generatedImages (fst (generateImage s (Fulfilled (d # ds)) now1 now2))) =
           Suc (length (generatedImages s))
         \<and> number_toString now1 \<noteq> []
         \<and> filter isPrependGeneratedImage (snd (generateImage s (Fulfilled (d # ds)) now1 now2)) =
           [PrependGeneratedImage
              \<lparr>img_id = number_toString now1, img_url = url d, img_prompt = trim (prompt s),
               img_timestamp = now2, img_size = size' s, img_quality = quality s\<rparr>]
         \<and> ToastSuccess msg_generated \<in> set (snd (generateImage s (Fulfilled (d # ds)) now1 now2))"
  using assms
  by (simp add: generateImage_nonempty resume_success [OF newImage_Fulfilled_Cons]
      number_toString_nonempty)

theorem generateImage_success_prepends_witness:
  "trim (prompt (initial_state\<lparr>prompt := [0x20, 0x61, 0x20, 0x72, 0x65, 0x64, 0x20, 0x66, 0x6F, 0x78, 0x20]\<rparr>)) \<noteq> []
   \<and> generatedImages (fst (generateImage
        (initial_state\<lparr>prompt := [0x20, 0x61, 0x20, 0x72, 0x65, 0x64, 0x20, 0x66, 0x6F, 0x78, 0x20]\<rparr>)
        (Fulfilled [\<lparr>url = [0x75]\<rparr>]) 1234 1235)) =
      [\<lparr>img_id = [0x31, 0x32, 0x33, 0x34], img_url = [0x75],
        img_prompt = [0x61, 0x20, 0x72, 0x65, 0x64, 0x20, 0x66, 0x6F, 0x78],
        img_timestamp = 1235, img_size = js ''1024x1024'', img_quality = js ''high''\<rparr>]"
  using generateImage_success_prepends
    [of "initial_state\<lparr>prompt := [0x20, 0x61, 0x20, 0x72, 0x65, 0x64, 0x20, 0x66, 0x6F, 0x78, 0x20]\<rparr>"
        "\<lparr>url = [0x75]\<rparr>" "[]" 1234 1235]
  by (simp add: initial_state_def trim_def isWhiteSpace_def number_toString_def nat_digits.simps)

text \<open>
  C2. When the prompt is not empty after trimming and the request rejects, with whatever
  error, \<open>generateImage\<close> shows the failure notification and leaves the result
  sequence as it was: nothing is added, removed or changed. The same holds of the
  continuation alone, on whatever state it resumes.
\<close>

theorem generateImage_rejected_unchanged:
  assumes "trim (prompt s) \<noteq> []"
  shows "generatedImages (fst (generateImage s (Rejected e) now1 now2)) = generatedImages s
         \<and> fst (generateImage s (Rejected e) now1 now2) = s\<lparr>generating := False\<rparr>
         \<and> filter isPrependGeneratedImage (snd (generateImage s (Rejected e) now1 now2)) = []
         \<and> ToastError msg_generate_failed \<in> set (snd (generateImage s (Rejected e) now1 now2))
         \<and> ToastSuccess msg_generated \<notin> set (snd (generateImage s (Rejected e) now1 now2))
         \<and> generatedImages (fst (generateImage_resume c (Rejected e) t1 t2 s')) = generatedImages s'"
  using assms
  by (simp add: generateImage_nonempty resume_failure [OF newImage_Rejected])

theorem generateImage_rejected_unchanged_witness:
  "trim (prompt (initial_state\<lparr>prompt := [0x61]\<rparr>)) \<noteq> []
   \<and> fst (generateImage (initial_state\<lparr>prompt := [0x61]\<rparr>) (Rejected []) 0 0) =
       initial_state\<lparr>prompt := [0x61]\<rparr>"
  using generateImage_rejected_unchanged [of "initial_state\<lparr>prompt := [0x61]\<rparr>" "[]" 0 0]
  by (simp add: initial_state_def trim_def isWhiteSpace_def)

text \<open>
  C3. When the prompt is empty after trimming, that is, when it is empty or all white
  space, \<open>generateImage\<close> makes no request,
  changes nothing of the state (the result sequence and the in-flight flag among it) and
  shows the notification that asks for a prompt; it does not suspend.
\<close>

theorem generateImage_blank_prompt:
  assumes "trim (prompt s) = []"
  shows "generateImage s r now1 now2 = (s, [ToastError msg_enter_prompt])
         \<and> generateImage_begin s = (s, [ToastError msg_enter_prompt], None)
         \<and> filter isGenerateImageCall (snd (generateImage s r now1 now2)) = []
         \<and> generatedImages (fst (generateImage s r now1 now2)) = generatedImages s
         \<and> generating (fst (generateImage s r now1 now2)) = generating s
         \<and> (\<forall>c\<in>set (prompt s). isWhiteSpace c)"
  using assms by (simp add: generateImage_empty generateImage_begin_empty trim_empty_iff)

theorem generateImage_blank_prompt_witness:
  "trim (prompt (initial_state\<lparr>prompt := [0x20, 0x20, 0x20]\<rparr>)) = []
   \<and> generateImage (initial_state\<lparr>prompt := [0x20, 0x20, 0x20]\<rparr>) (Fulfilled [\<lparr>url = [0x75]\<rparr>]) 7 8 =
       (initial_state\<lparr>prompt := [0x20, 0x20, 0x20]\<rparr>, [ToastError msg_enter_prompt])"
  using generateImage_blank_prompt
    [of "initial_state\<lparr>prompt := [0x20, 0x20, 0x20]\<rparr>" "Fulfilled [\<lparr>url = [0x75]\<rparr>]" 7 8]
  by (simp add: initial_state_def trim_def isWhiteSpace_def)

text \<open>
  C4. When the prompt is not empty after trimming, \<open>generateImage\<close> makes exactly one
  request, however it settles, and its argument is the trimmed prompt, the selected size,
  the selected quality and \<open>n = 1\<close>.
\<close>

theorem generateImage_one_request:
  assumes "trim (prompt s) \<noteq> []"
  shows "filter isGenerateImageCall (snd (generateImage s r now1 now2)) =
           [GenerateImageCall
              \<lparr>req_prompt = trim (prompt s), req_size = size' s, req_quality = quality s,
               req_n = 1\<rparr>]"
  using assms by (simp add: generateImage_nonempty resume_no_call)

theorem generateImage_one_request_witness:
  "trim (prompt (initial_state\<lparr>prompt := [0x20, 0x61, 0x20]\<rparr>)) \<noteq> []
   \<and> filter isGenerateImageCall
       (snd (generateImage (initial_state\<lparr>prompt := [0x20, 0x61, 0x20]\<rparr>) (Rejected []) 0 0)) =
       [GenerateImageCall
          \<lparr>req_prompt = [0x61], req_size = js ''1024x1024'', req_quality = js ''high'',
           req_n = 1\<rparr>]"
  using generateImage_one_request [of "initial_state\<lparr>prompt := [0x20, 0x61, 0x20]\<rparr>" "Rejected []" 0 0]
  by (simp add: initial_state_def trim_def isWhiteSpace_def)

text \<open>
  C5. A call of \<open>generateImage\<close> with a prompt that is not empty after trimming sets
  the in-flight flag before it makes the request, and the continuation clears it as its
  last act, whether the request fulfilled or rejected (the \<open>finally\<close> block): within
  one call the order is set, request, clear. On the page, whatever happens, the flag is
  set only while some request is in flight.
\<close>

theorem generating_cleared_on_both_paths:
  assumes "trim (prompt s) \<noteq> []"
  shows "generateImage_begin s =
           (s\<lparr>generating := True\<rparr>,
            [SetGenerating True,
             GenerateImageCall
               \<lparr>req_prompt = trim (prompt s), req_size = size' s, req_quality = quality s,
                req_n = 1\<rparr>],
            Some \<lparr>c_prompt = prompt s, c_size = size' s, c_quality = quality s\<rparr>)
         \<and> generating (fst (generateImage_begin s))
         \<and> \<not> generating (fst (generateImage_resume c r t1 t2 s'))
         \<and> last (snd (generateImage_resume c r t1 t2 s')) = SetGenerating False
         \<and> \<not> generating (fst (generateImage s r now1 now2))
         \<and> filter (\<lambda>x. x = SetGenerating True \<or> x = SetGenerating False \<or> isGenerateImageCall x)
               (snd (generateImage s r now1 now2)) =
             [SetGenerating True,
              GenerateImageCall
                \<lparr>req_prompt = trim (prompt s), req_size = size' s, req_quality = quality s,
                 req_n = 1\<rparr>,
              SetGenerating False]
         \<and> (generating (app (run initial_system es)) \<longrightarrow> inflight (run initial_system es) \<noteq> [])"
proof -
  have inv: "generating (app (run initial_system es)) \<longrightarrow> inflight (run initial_system es) \<noteq> []"
    by (rule run_generating_inflight) (simp add: initial_system_def initial_state_def)
  have tr: "filter (\<lambda>x. x = SetGenerating True \<or> x = SetGenerating False \<or> isGenerateImageCall x)
              (snd (generateImage_resume c' r now1 now2 s'')) = [SetGenerating False]" for c' s''
    by (simp add: generateImage_resume_def split: sum.split)
  from assms inv tr show ?thesis
    by (simp add: generateImage_nonempty generateImage_begin_nonempty resume_generating resume_last)
qed

theorem generating_cleared_on_both_paths_witness:
  "trim (prompt (initial_state\<lparr>prompt := [0x61]\<rparr>)) \<noteq> []
   \<and> generating (fst (generateImage_begin (initial_state\<lparr>prompt := [0x61]\<rparr>)))
   \<and> \<not> generating (fst (generateImage (initial_state\<lparr>prompt := [0x61]\<rparr>) (Rejected []) 0 0))
   \<and> \<not> generating (fst (generateImage (initial_state\<lparr>prompt := [0x61]\<rparr>) (Fulfilled [\<lparr>url = []\<rparr>]) 0 0))
   \<and> generating (app (run initial_system [PromptChange [0x61], GenerateClick]))
   \<and> inflight (run initial_system [PromptChange [0x61], GenerateClick]) \<noteq> []"
  using generating_cleared_on_both_paths [of "initial_state\<lparr>prompt := [0x61]\<rparr>" _ "Rejected []" 0 0 _ 0 0
      "[PromptChange [0x61], GenerateClick]"]
    generating_cleared_on_both_paths [of "initial_state\<lparr>prompt := [0x61]\<rparr>" _ "Fulfilled [\<lparr>url = []\<rparr>]" 0 0 _ 0 0 "[]"]
  by (simp add: initial_state_def initial_system_def trim_def isWhiteSpace_def generateImage_begin_def)

text \<open>
  C6. From any state of the page and through any events, the result sequence only grows
  at the front: the sequence it was is still its tail, entry for entry, and the number of
  entries in front is the number of generation calls that succeeded meanwhile. From the
  initial page the sequence has one entry for each successful call; failed calls and all
  other operations add, change and remove nothing.
\<close>

theorem generatedImages_one_per_success:
  "(\<exists>new. generatedImages (app (run \<sigma> es)) = new @ generatedImages (app \<sigma>)
          \<and> length new = successes \<sigma> es)
   \<and> length (generatedImages (app (run initial_system es))) = successes initial_system es"
proof -
  obtain new where "generatedImages (app (run initial_system es)) = new @ generatedImages (app initial_system)"
      "length new = successes initial_system es"
    using run_images by blast
  then have "length (generatedImages (app (run initial_system es))) = successes initial_system es"
    by (simp add: initial_system_def initial_state_def)
  with run_images show ?thesis by blast
qed

theorem generatedImages_one_per_success_witness:
  "length (generatedImages (app (run initial_system
      [PromptChange [0x61], GenerateClick, GenerateSettled 0 (Rejected []) 1 2,
       GenerateClick, GenerateSettled 0 (Fulfilled [\<lparr>url = [0x75]\<rparr>]) 3 4,
       GenerateClick, GenerateSettled 0 (Fulfilled []) 5 6, DownloadClick 0 None]))) = 1"
  using generatedImages_one_per_success [of initial_system
      "[PromptChange [0x61], GenerateClick, GenerateSettled 0 (Rejected []) 1 2,
       GenerateClick, GenerateSettled 0 (Fulfilled [\<lparr>url = [0x75]\<rparr>]) 3 4,
       GenerateClick, GenerateSettled 0 (Fulfilled []) 5 6, DownloadClick 0 None]"]
  by (simp add: initial_system_def initial_state_def generateImage_begin_def trim_def isWhiteSpace_def
      generateImage_resume_def newImage_def first_url_def)

text \<open>
  C7. \<open>generateImage\<close> does not guard the read of the first result: when the request
  fulfils with an empty array, reading \<open>data[0].url\<close> throws, no record is constructed
  and none is added to the result sequence; the error is caught like any other.
\<close>

theorem empty_response_adds_nothing:
  assumes "trim (prompt s) \<noteq> []"
  shows "first_url [] = Inl TypeError
         \<and> newImage c (Fulfilled []) t1 t2 = Inl TypeError
         \<and> generatedImages (fst (generateImage s (Fulfilled []) now1 now2)) = generatedImages s
         \<and> filter isPrependGeneratedImage (snd (generateImage s (Fulfilled []) now1 now2)) = []
         \<and> snd (generateImage s (Fulfilled []) now1 now2) =
             [SetGenerating True,
              GenerateImageCall
                \<lparr>req_prompt = trim (prompt s), req_size = size' s, req_quality = quality s,
                 req_n = 1\<rparr>,
              ToastError msg_generate_failed, SetGenerating False]
         \<and> generatedImages (fst (generateImage_resume c (Fulfilled []) t1 t2 s')) = generatedImages s'"
  using assms
  by (simp add: generateImage_nonempty resume_failure [OF newImage_Fulfilled_Nil]
      newImage_Fulfilled_Nil first_url_def)

theorem empty_response_adds_nothing_witness:
  "trim (prompt (initial_state\<lparr>prompt := [0x61]\<rparr>)) \<noteq> []
   \<and> generatedImages (fst (generateImage (initial_state\<lparr>prompt := [0x61]\<rparr>) (Fulfilled []) 1 2)) = []"
  using empty_response_adds_nothing [of "initial_state\<lparr>prompt := [0x61]\<rparr>" _ 1 2 1 2]
  by (simp add: initial_state_def trim_def isWhiteSpace_def)

text \<open>
  C10. \<open>generateImage\<close> leaves the prompt, the selected size and the selected quality
  (and the session fields) as they were, on every path: of the state it changes the
  in-flight flag and, when a record was constructed, the result sequence, and nothing
  else. The prompt is not cleared after a success.
\<close>

theorem generateImage_frame:
  "prompt (fst (generateImage s r now1 now2)) = prompt s
   \<and> size' (fst (generateImage s r now1 now2)) = size' s
   \<and> quality (fst (generateImage s r now1 now2)) = quality s
   \<and> user (fst (generateImage s r now1 now2)) = user s
   \<and> loading (fst (generateImage s r now1 now2)) = loading s
   \<and> fst (generateImage s r now1 now2) =
       s\<lparr>generating := generating (fst (generateImage s r now1 now2)),
         generatedImages := generatedImages (fst (generateImage s r now1 now2))\<rparr>
   \<and> fst (generateImage_begin s) = s\<lparr>generating := generating (fst (generateImage_begin s))\<rparr>
   \<and> fst (generateImage_resume c r t1 t2 s') =
       s'\<lparr>generatedImages :=
            (case newImage c r t1 t2 of Inl e \<Rightarrow> [] | Inr img \<Rightarrow> [img]) @ generatedImages s',
          generating := False\<rparr>"
proof (cases "trim (prompt s) = []")
  case True
  then show ?thesis
    by (simp add: generateImage_empty generateImage_begin_empty resume_fst)
next
  case False
  then show ?thesis
    by (simp add: generateImage_nonempty generateImage_begin_nonempty resume_fst)
qed

subsection \<open>The download and the session observer\<close>

text \<open>
  C8. \<open>downloadImage\<close> fetches the resource, reads it as a blob, makes an object URL
  and an anchor, names the download \<open>ai-generated-\<close>, the first 30 code units of the
  prompt with each one outside \<open>a-z\<close>, \<open>A-Z\<close>, \<open>0-9\<close> replaced by a hyphen, \<open>.png\<close>,
  clicks the anchor, then revokes the object URL and removes the anchor. When any
  statement throws, the rest is skipped and the failure notification is shown instead of
  the success notification.
\<close>

theorem downloadImage_filename_and_cleanup:
  "downloadImage None u p =
     [Fetch u, ReadBlob, CreateObjectURL, CreateAnchor, SetHref,
      SetDownload (js ''ai-generated-'' @ replaceNonAlnum (take 30 p) @ js ''.png''),
      AppendChild, ClickAnchor, RevokeObjectURL, RemoveChild, ToastSuccess msg_downloaded]
   \<and> length (replaceNonAlnum (take 30 p)) = min 30 (length p)
   \<and> (\<forall>i < min 30 (length p).
         replaceNonAlnum (take 30 p) ! i = (if isAlnum (p ! i) then p ! i else 0x2D))
   \<and> (k < 11 \<longrightarrow>
         downloadImage (Some k) u p = take k (downloadImage None u p) @ [ToastError msg_download_failed]
         \<and> last (downloadImage (Some k) u p) = ToastError msg_download_failed
         \<and> ToastSuccess msg_downloaded \<notin> set (downloadImage (Some k) u p))"
proof -
  have 1: "downloadImage None u p =
     [Fetch u, ReadBlob, CreateObjectURL, CreateAnchor, SetHref,
      SetDownload (js ''ai-generated-'' @ replaceNonAlnum (take 30 p) @ js ''.png''),
      AppendChild, ClickAnchor, RevokeObjectURL, RemoveChild, ToastSuccess msg_downloaded]"
    by (simp add: downloadImage_def download_body_def download_filename_def)
  have 2: "length (replaceNonAlnum (take 30 p)) = min 30 (length p)"
    by (simp add: replaceNonAlnum_def min.commute)
  have 3: "\<forall>i < min 30 (length p).
         replaceNonAlnum (take 30 p) ! i = (if isAlnum (p ! i) then p ! i else 0x2D)"
    using replaceNonAlnum_nth by blast
  have b: "downloadImage None u p = download_body u p"
    by (simp add: downloadImage_def)
  have 4: "k < 11 \<longrightarrow>
         downloadImage (Some k) u p = take k (downloadImage None u p) @ [ToastError msg_download_failed]
         \<and> last (downloadImage (Some k) u p) = ToastError msg_download_failed
         \<and> ToastSuccess msg_downloaded \<notin> set (downloadImage (Some k) u p)"
    by (simp add: b downloadImage_throws success_toast_not_in_take)
  from 1 2 3 4 show ?thesis by blast
qed

theorem downloadImage_filename_and_cleanup_witness:
  "(2::nat) < 11
   \<and> downloadImage (Some 2) [0x75]
       [0x41, 0x20, 0x6d, 0x61, 0x6a, 0x65, 0x73, 0x74, 0x69, 0x63, 0x20, 0x6d, 0x6f, 0x75, 0x6e,
        0x74, 0x61, 0x69, 0x6e, 0x2c, 0x20, 0x61, 0x74, 0x20, 0x73, 0x75, 0x6e, 0x73, 0x65, 0x74,
        0x20, 0x77, 0x69, 0x74, 0x68, 0x20, 0x73, 0x6e, 0x6f, 0x77] =
       [Fetch [0x75], ReadBlob, ToastError msg_download_failed]
   \<and> downloadImage None [0x75]
       [0x41, 0x20, 0x6d, 0x61, 0x6a, 0x65, 0x73, 0x74, 0x69, 0x63, 0x20, 0x6d, 0x6f, 0x75, 0x6e,
        0x74, 0x61, 0x69, 0x6e, 0x2c, 0x20, 0x61, 0x74, 0x20, 0x73, 0x75, 0x6e, 0x73, 0x65, 0x74,
        0x20, 0x77, 0x69, 0x74, 0x68, 0x20, 0x73, 0x6e, 0x6f, 0x77] =
       [Fetch [0x75], ReadBlob, CreateObjectURL, CreateAnchor, SetHref,
        SetDownload (js ''ai-generated-'' @
          [0x41, 0x2d, 0x6d, 0x61, 0x6a, 0x65, 0x73, 0x74, 0x69, 0x63, 0x2d, 0x6d, 0x6f, 0x75, 0x6e,
           0x74, 0x61, 0x69, 0x6e, 0x2d, 0x2d, 0x61, 0x74, 0x2d, 0x73, 0x75, 0x6e, 0x73, 0x65, 0x74]
          @ js ''.png''),
        AppendChild, ClickAnchor, RevokeObjectURL, RemoveChild, ToastSuccess msg_downloaded]"
  using downloadImage_filename_and_cleanup [of "[0x75]"
       "[0x41, 0x20, 0x6d, 0x61, 0x6a, 0x65, 0x73, 0x74, 0x69, 0x63, 0x20, 0x6d, 0x6f, 0x75, 0x6e,
        0x74, 0x61, 0x69, 0x6e, 0x2c, 0x20, 0x61, 0x74, 0x20, 0x73, 0x75, 0x6e, 0x73, 0x65, 0x74,
        0x20, 0x77, 0x69, 0x74, 0x68, 0x20, 0x73, 0x6e, 0x6f, 0x77]" 2]
  by (simp add: replaceNonAlnum_def isAlnum_def)

text \<open>
  C9. The session observer: mounting registers the callback with the provider; each
  notification replaces \<open>user\<close> and \<open>loading\<close> by the values supplied and touches
  nothing else, the cleanup among it; unmounting unregisters, after which the component
  is no longer among the observers, no observer is left that was not there before the
  mount, and notifications no longer reach the component. Teardown does this at any
  point of the observer's life: for any component, after any notifications, and on the
  provider as it is then, it removes exactly the component's own subscription.
\<close>

theorem session_observer:
  "user (authCallback st s) = as_user st
   \<and> loading (authCallback st s) = as_isLoading st
   \<and> authCallback st s = s\<lparr>user := as_user st, loading := as_isLoading st\<rparr>
   \<and> cleanup (fst (mount p)) \<in> set (observers (snd (mount p)))
   \<and> state (notify (snd (mount p)) st (fst (mount p))) =
       initial_state\<lparr>user := as_user st, loading := as_isLoading st\<rparr>
   \<and> cleanup (fst (mount p)) \<notin> set (observers (unmount (fst (mount p)) (snd (mount p))))
   \<and> set (observers (unmount (fst (mount p)) (snd (mount p)))) \<subseteq> set (observers p)
   \<and> notify (unmount (fst (mount p)) (snd (mount p))) st (fst (mount p)) = fst (mount p)
   \<and> (next_handle p \<notin> set (observers p) \<longrightarrow>
        observers (unmount (fst (mount p)) (snd (mount p))) = observers p)
   \<and> (cleanup c \<in> set (observers q) \<longrightarrow>
        state (notify q st c) = (state c)\<lparr>user := as_user st, loading := as_isLoading st\<rparr>)
   \<and> cleanup (notify q st c) = cleanup c
   \<and> cleanup (notifications q sts c) = cleanup c
   \<and> observers (unmount c q) = filter (\<lambda>k. k \<noteq> cleanup c) (observers q)
   \<and> next_handle (unmount c q) = next_handle q
   \<and> observers (unmount (notifications q' sts c) q) =
       filter (\<lambda>k. k \<noteq> cleanup c) (observers q)
   \<and> cleanup c \<notin> set (observers (unmount (notifications q' sts c) q))
   \<and> set (observers (unmount (notifications q' sts c) q)) \<subseteq> set (observers q)
   \<and> notify (unmount (notifications q' sts c) q) st (notifications q' sts c) =
       notifications q' sts c"
proof -
  have cb: "authCallback st s = s\<lparr>user := as_user st, loading := as_isLoading st\<rparr>" for s
    by (simp add: authCallback_def)
  have reg: "cleanup (fst (mount p)) \<in> set (observers (snd (mount p)))"
    by (simp add: mount_eq)
  then have upd: "state (notify (snd (mount p)) st (fst (mount p))) =
      initial_state\<lparr>user := as_user st, loading := as_isLoading st\<rparr>"
    by (simp add: notify_def authCallback_def mount_eq)
  have after: "observers (unmount (fst (mount p)) (snd (mount p))) =
      filter (\<lambda>k. k \<noteq> next_handle p) (observers p)"
    by (simp add: mount_eq unmount_def unsubscribe_def)
  have h: "cleanup (fst (mount p)) = next_handle p"
    by (simp add: mount_eq)
  from after h have gone:
    "cleanup (fst (mount p)) \<notin> set (observers (unmount (fst (mount p)) (snd (mount p))))"
    by simp
  from after have sub: "set (observers (unmount (fst (mount p)) (snd (mount p)))) \<subseteq> set (observers p)"
    by auto
  from gone have deaf: "notify (unmount (fst (mount p)) (snd (mount p))) st (fst (mount p)) = fst (mount p)"
    by (simp add: notify_def)
  from after have same: "next_handle p \<notin> set (observers p) \<longrightarrow>
      observers (unmount (fst (mount p)) (snd (mount p))) = observers p"
    by (simp add: filter_absent)
  from cb have sel: "user (authCallback st s) = as_user st" "loading (authCallback st s) = as_isLoading st"
    by simp_all
  have live: "cleanup c \<in> set (observers q) \<longrightarrow>
      state (notify q st c) = (state c)\<lparr>user := as_user st, loading := as_isLoading st\<rparr>"
    by (simp add: notify_def cb)
  have frame: "next_handle (unmount c q) = next_handle q"
    by (simp add: unmount_def unsubscribe_def)
  have late: "observers (unmount (notifications q' sts c) q) =
      filter (\<lambda>k. k \<noteq> cleanup c) (observers q)"
    by (simp add: unmount_observers notifications_cleanup)
  then have late_gone: "cleanup c \<notin> set (observers (unmount (notifications q' sts c) q))"
    by simp
  from late have late_sub: "set (observers (unmount (notifications q' sts c) q)) \<subseteq> set (observers q)"
    by auto
  from late_gone have late_deaf:
    "notify (unmount (notifications q' sts c) q) st (notifications q' sts c) =
       notifications q' sts c"
    by (simp add: notify_def notifications_cleanup)
  from cb [of s] sel reg upd gone sub deaf same live frame late late_gone late_sub late_deaf
    notify_cleanup [of q st c] notifications_cleanup [of q sts c] unmount_observers [of c q]
  show ?thesis
    by blast
qed

theorem session_observer_witness:
  "next_handle \<lparr>observers = [], next_handle = 0\<rparr> \<notin> set (observers \<lparr>observers = [], next_handle = 0\<rparr>)
   \<and> observers (snd (mount \<lparr>observers = [], next_handle = 0\<rparr>)) = [0]
   \<and> observers (unmount (fst (mount \<lparr>observers = [], next_handle = 0\<rparr>))
                         (snd (mount \<lparr>observers = [], next_handle = 0\<rparr>))) = []
   \<and> user (state (notify (snd (mount \<lparr>observers = [], next_handle = 0\<rparr>))
                    \<lparr>as_user = Some \<lparr>email = [0x61]\<rparr>, as_isLoading = False\<rparr>
                    (fst (mount \<lparr>observers = [], next_handle = 0\<rparr>)))) = Some \<lparr>email = [0x61]\<rparr>
   \<and> cleanup (fst (mount \<lparr>observers = [0], next_handle = 1\<rparr>))
       \<in> set (observers (snd (onAuthStateChanged (snd (mount \<lparr>observers = [0], next_handle = 1\<rparr>)))))
   \<and> observers (snd (onAuthStateChanged (snd (mount \<lparr>observers = [0], next_handle = 1\<rparr>)))) = [0, 1, 2]
   \<and> loading (state (notifications (snd (mount \<lparr>observers = [0], next_handle = 1\<rparr>))
        [\<lparr>as_user = None, as_isLoading = True\<rparr>,
         \<lparr>as_user = Some \<lparr>email = [0x61]\<rparr>, as_isLoading = False\<rparr>]
        (fst (mount \<lparr>observers = [0], next_handle = 1\<rparr>)))) = False
   \<and> observers (unmount
        (notifications (snd (mount \<lparr>observers = [0], next_handle = 1\<rparr>))
           [\<lparr>as_user = None, as_isLoading = True\<rparr>,
            \<lparr>as_user = Some \<lparr>email = [0x61]\<rparr>, as_isLoading = False\<rparr>]
           (fst (mount \<lparr>observers = [0], next_handle = 1\<rparr>)))
        (snd (onAuthStateChanged (snd (mount \<lparr>observers = [0], next_handle = 1\<rparr>))))) = [0, 2]"
  using session_observer [of "\<lparr>as_user = Some \<lparr>email = [0x61]\<rparr>, as_isLoading = False\<rparr>" _
      "\<lparr>observers = [], next_handle = 0\<rparr>"]
    session_observer [of _ _ _
      "fst (mount \<lparr>observers = [0], next_handle = 1\<rparr>)"
      "snd (onAuthStateChanged (snd (mount \<lparr>observers = [0], next_handle = 1\<rparr>)))"
      "[\<lparr>as_user = None, as_isLoading = True\<rparr>,
        \<lparr>as_user = Some \<lparr>email = [0x61]\<rparr>, as_isLoading = False\<rparr>]"
      "snd (mount \<lparr>observers = [0], next_handle = 1\<rparr>)"]
  by (simp add: mount_eq onAuthStateChanged_def notify_def authCallback_def)

end
